theory Spec2Isabelle
  imports Main "HOL-Library.Sublist"
begin

section \<open>The base server of components/common-go/baseserver/server.go\<close>

text \<open>
  The Go package builds a \<open>Server\<close> out of three protocol servers (a debug HTTP server,
  a plain HTTP server and a gRPC server), binds their listeners in \<open>ListenAndServe\<close>
  and tears them down in \<open>close\<close>, guarded by a \<open>sync.Once\<close> in \<open>Close\<close>.

  The embedding passes the state explicitly. A \<open>Server\<close> record is the Go struct; a
  \<open>world\<close> record is everything outside it that the code acts upon: the listeners the
  operating system holds open, a logical clock, and the trace of the calls made to the
  protocol servers and to the logger. What the code cannot decide by itself (whether a
  bind succeeds, when a goroutine is scheduled, how long the connections of a server need
  to drain and whether they ever do, whether a signal arrives) is read from an \<open>env\<close>
  record. The general theorems quantify over it; the evaluations fix one.
\<close>

subsection \<open>Errors\<close>

text \<open>
  A Go \<open>error\<close> value is an \<open>error option\<close>: \<open>None\<close> is \<open>nil\<close>.
  \<open>New_error\<close> is an error that carries only a message; \<open>Errorf m e\<close> is
  \<open>fmt.Errorf(m + ": %w", e)\<close>.
\<close>

datatype error = New_error string | Errorf string error

subsection \<open>Configuration\<close>

record TLSConfiguration =
  CA :: string
  Cert :: string
  Key :: string

record ServerConfiguration =
  Address :: string
  TLS :: "TLSConfiguration option"

record ServicesConfiguration =
  Debug :: "ServerConfiguration option"
  HTTP :: "ServerConfiguration option"
  GRPC :: "ServerConfiguration option"

record Configuration =
  Services :: ServicesConfiguration

subsection \<open>Listeners and the world\<close>

datatype service = SvcDebug | SvcHTTP | SvcGRPC

datatype level = DebugLevel | InfoLevel | ErrorLevel | FatalLevel

text \<open>
  The calls that leave the \<open>Server\<close>: a successful \<open>net.Listen\<close>, the start of an accept
  loop on a descriptor (with TLS or not), \<open>grpc.Server.GracefulStop\<close>, \<open>http.Server.Shutdown\<close>,
  \<open>signal.Notify\<close> and the logger.
\<close>

datatype event =
    Ev_Listen service string
  | Ev_Serve nat bool
  | Ev_GracefulStop
  | Ev_Shutdown service
  | Ev_Notify
  | Ev_Log level string

text \<open>A \<open>net.Listener\<close>: its descriptor and the address it resolved to.\<close>

record Listener =
  fd :: nat
  addr :: string

record world =
  open_listeners :: "nat set"
  next_fd :: nat
  now :: nat
  trace :: "event list"

subsection \<open>Handlers and options\<close>

text \<open>
  An HTTP handler is caller code that runs at each request. It is code of another
  package: it can read the world as it is at the request (the open listeners, the clock,
  what was logged and called so far) and what the exported address queries of the server
  return then, and it answers with a status code for the requested path. The unexported
  fields of the server (the \<open>listening\<close> channel, the once-guard) it cannot read. What a
  handler changes in the world is no part of server.go and is left out.
\<close>

record process_view =
  seen_world :: world
  seen_addresses :: "service \<Rightarrow> string"

type_synonym HandlerFunc = "process_view \<Rightarrow> string \<Rightarrow> nat"

text \<open>
  The health handler of the options: the two endpoints that \<open>initializeDebug\<close> mounts.
\<close>

record healthcheck_Handler =
  ReadyEndpoint :: HandlerFunc
  LiveEndpoint :: HandlerFunc

text \<open>A Prometheus registry, as the list of the collectors registered with it.\<close>

type_synonym Registry = "string list"

text \<open>
  The fields of the \<open>options\<close> struct that server.go reads. The struct itself is declared
  in options.go; the logger is the trace of the world. \<open>closeTimeout\<close> is a duration in
  ticks of the logical clock.
\<close>

record options =
  config :: Configuration
  closeTimeout :: nat
  metricsRegistry :: Registry
  healthHandler :: healthcheck_Handler

subsection \<open>Protocol servers, the environment and the server\<close>

type_synonym ServeMux = "(string \<times> HandlerFunc) list"

text \<open>
  An \<open>http.Server\<close>: its handler, its \<open>Addr\<close> field, the descriptors of the listeners
  its accept loops serve (the library's own bookkeeping, which \<open>Shutdown\<close> closes) and
  whether \<open>Shutdown\<close> was called on it.
\<close>

record http_Server =
  Handler :: ServeMux
  Addr :: string
  tracked :: "nat list"
  inShutdown :: bool

text \<open>
  A \<open>grpc.Server\<close>: whether it has transport credentials, its registered services, its
  listeners, and whether it was stopped.
\<close>

record grpc_Server =
  creds :: bool
  services :: "string list"
  lis :: "nat list"
  stopped :: bool

text \<open>
  The environment. \<open>listen_result svc a\<close> is what \<open>net.Listen("tcp", a)\<close> returns at
  the call site of protocol \<open>svc\<close>: an error, or the resolved address. \<open>sched svc\<close>
  says when the accept-loop goroutine of \<open>svc\<close> first runs: at its \<open>go\<close> statement, or
  not before \<open>ListenAndServe\<close> has blocked for good or has run its deferred call.
  \<open>drain svc\<close> is the time the open connections of a serving protocol server need
  before they are idle, \<open>lnerr svc\<close> the error of closing its listener, and \<open>unending\<close>
  says that a call of the gRPC server never ends. \<open>signal\<close> is the operating-system
  signal that reaches the process, if one does. \<open>tls_config\<close> is what
  \<open>ClientAuthTLSConfig\<close> returns for the gRPC certificates.
\<close>

record env =
  listen_result :: "service \<Rightarrow> string \<Rightarrow> error + string"
  sched :: "service \<Rightarrow> bool"
  drain :: "service \<Rightarrow> nat"
  lnerr :: "service \<Rightarrow> error option"
  unending :: bool
  signal :: "string option"
  tls_config :: "error option"

text \<open>The \<open>listening\<close> channel: \<open>None\<close> is the nil channel.\<close>

datatype chan = Open | Closed

record Server =
  Name :: string
  options :: options
  debug :: "http_Server option"
  debugListener :: "Listener option"
  http :: "http_Server option"
  httpMux :: "ServeMux option"
  httpListener :: "Listener option"
  grpc :: "grpc_Server option"
  grpcListener :: "Listener option"
  listening :: "chan option"
  closeOnce :: bool

text \<open>The entry of a protocol in the configuration.\<close>

definition service_config :: "Server \<Rightarrow> service \<Rightarrow> ServerConfiguration option" where
  "service_config s svc =
     (case svc of
        SvcDebug \<Rightarrow> Debug (Services (config (options s)))
      | SvcHTTP \<Rightarrow> HTTP (Services (config (options s)))
      | SvcGRPC \<Rightarrow> GRPC (Services (config (options s))))"

subsection \<open>Library calls\<close>

definition Logger_log :: "level \<Rightarrow> string \<Rightarrow> world \<Rightarrow> world" where
  "Logger_log lvl msg w = w\<lparr>trace := trace w @ [Ev_Log lvl msg]\<rparr>"

text \<open>\<open>net.Listen\<close>: on success a new descriptor is open.\<close>

definition net_Listen :: "env \<Rightarrow> service \<Rightarrow> string \<Rightarrow> world \<Rightarrow> (error + Listener) \<times> world" where
  "net_Listen e svc a w =
     (case listen_result e svc a of
        Inl err \<Rightarrow> (Inl err, w)
      | Inr ra \<Rightarrow>
          (Inr \<lparr>fd = next_fd w, addr = ra\<rparr>,
           w\<lparr>open_listeners := insert (next_fd w) (open_listeners w),
             next_fd := Suc (next_fd w),
             trace := trace w @ [Ev_Listen svc a]\<rparr>))"

text \<open>
  \<open>http.Server.Shutdown(ctx)\<close>, by its documented contract: it marks the server as
  shutting down, closes the listeners of the server, then waits until the connections
  are idle or the deadline \<open>ctx\<close> passes. It returns the context's error in the second
  case and the error of closing the listeners otherwise. A server with no listener has
  no connection.
\<close>

definition http_Shutdown ::
  "env \<Rightarrow> service \<Rightarrow> nat \<Rightarrow> http_Server \<Rightarrow> world \<Rightarrow> error option \<times> http_Server \<times> world" where
  "http_Shutdown e svc ctx srv w =
     (let need = (if tracked srv = [] then 0 else drain e svc);
          lerr = (if tracked srv = [] then None else lnerr e svc);
          w1 = w\<lparr>open_listeners := open_listeners w - set (tracked srv),
                 trace := trace w @ [Ev_Shutdown svc]\<rparr>;
          srv1 = srv\<lparr>tracked := [], inShutdown := True\<rparr>
      in if need = 0 \<or> now w + need \<le> ctx
         then (lerr, srv1, w1\<lparr>now := now w + need\<rparr>)
         else (Some (New_error ''context deadline exceeded''), srv1, w1\<lparr>now := max (now w) ctx\<rparr>))"

text \<open>
  \<open>grpc.Server.GracefulStop()\<close>: closes the listeners and blocks until the pending calls
  are finished. It takes no context and returns nothing. \<open>GracefulStop\<close> is the state in
  which the call returns, after the time the calls need; \<open>GracefulStop_returns\<close> says
  whether it returns at all: it does not while a call of a serving gRPC server never ends.
\<close>

definition GracefulStop :: "env \<Rightarrow> grpc_Server \<Rightarrow> world \<Rightarrow> grpc_Server \<times> world" where
  "GracefulStop e srv w =
     (srv\<lparr>lis := [], stopped := True\<rparr>,
      w\<lparr>open_listeners := open_listeners w - set (lis srv),
        now := now w + (if lis srv = [] then 0 else drain e SvcGRPC),
        trace := trace w @ [Ev_GracefulStop]\<rparr>)"

definition GracefulStop_returns :: "env \<Rightarrow> grpc_Server \<Rightarrow> bool" where
  "GracefulStop_returns e srv = (if lis srv = [] then True else \<not> unending e)"

subsection \<open>isClosing, close and Close\<close>

definition isClosing :: "Server \<Rightarrow> bool" where
  "isClosing s = (listening s = Some Closed)"

text \<open>The three blocks of \<open>close\<close> that stop one protocol server each.\<close>

definition close_grpc :: "env \<Rightarrow> Server \<Rightarrow> world \<Rightarrow> Server \<times> world" where
  "close_grpc e s w =
     (case grpc s of
        None \<Rightarrow> (s, w)
      | Some g \<Rightarrow>
          (case GracefulStop e g w of
             (g1, w1) \<Rightarrow>
               (s\<lparr>grpc := Some g1, grpcListener := None\<rparr>,
                Logger_log InfoLevel ''GRPC server terminated.'' w1)))"

definition close_http :: "env \<Rightarrow> nat \<Rightarrow> Server \<Rightarrow> world \<Rightarrow> error option \<times> Server \<times> world" where
  "close_http e ctx s w =
     (case http s of
        None \<Rightarrow> (None, s, w)
      | Some h \<Rightarrow>
          (case http_Shutdown e SvcHTTP ctx h w of
             (Some err, h1, w1) \<Rightarrow>
               (Some (Errorf ''failed to close http server'' err), s\<lparr>http := Some h1\<rparr>, w1)
           | (None, h1, w1) \<Rightarrow>
               (None, s\<lparr>http := Some h1, httpListener := None\<rparr>,
                Logger_log InfoLevel ''HTTP server terminated.'' w1)))"

definition close_debug :: "env \<Rightarrow> nat \<Rightarrow> Server \<Rightarrow> world \<Rightarrow> error option \<times> Server \<times> world" where
  "close_debug e ctx s w =
     (case debug s of
        None \<Rightarrow> (None, s, w)
      | Some d \<Rightarrow>
          (case http_Shutdown e SvcDebug ctx d w of
             (Some err, d1, w1) \<Rightarrow>
               (Some (Errorf ''failed to close debug server'' err), s\<lparr>debug := Some d1\<rparr>, w1)
           | (None, d1, w1) \<Rightarrow>
               (None, s\<lparr>debug := Some d1, debugListener := None\<rparr>,
                Logger_log InfoLevel ''Debug server terminated.'' w1)))"

text \<open>The log line and the \<open>close(s.listening)\<close> that open the teardown.\<close>

definition close_listening :: "Server \<Rightarrow> world \<Rightarrow> Server \<times> world" where
  "close_listening s w =
     (s\<lparr>listening := Some Closed\<rparr>,
      Logger_log InfoLevel ''Received graceful shutdown request.'' w)"

definition close :: "env \<Rightarrow> nat \<Rightarrow> Server \<Rightarrow> world \<Rightarrow> error option \<times> Server \<times> world" where
  "close e ctx s w =
     (if listening s = None
      then (Some (New_error ''server is not running, invalid close operation''), s, w)
      else if isClosing s
      then (None, s, Logger_log DebugLevel ''Server is already closing.'' w)
      else
        (case close_listening s w of
           (s1, w1) \<Rightarrow>
             (case close_grpc e s1 w1 of
                (s2, w2) \<Rightarrow>
                  (case close_http e ctx s2 w2 of
                     (Some err, s3, w3) \<Rightarrow> (Some err, s3, w3)
                   | (None, s3, w3) \<Rightarrow> close_debug e ctx s3 w3))))"

text \<open>
  \<open>Close\<close>: the deadline is \<open>closeTimeout\<close> after the call; \<open>closeOnce.Do\<close> runs the body
  only if the guard is not consumed, and \<open>err\<close> is a local variable that only the body
  assigns. \<open>Close\<close> is the outcome of the call when it returns.
\<close>

definition Close :: "env \<Rightarrow> Server \<Rightarrow> world \<Rightarrow> error option \<times> Server \<times> world" where
  "Close e s w =
     (let ctx = now w + closeTimeout (options s)
      in if closeOnce s then (None, s, w)
         else (case close e ctx s w of
                 (err, s1, w1) \<Rightarrow> (err, s1\<lparr>closeOnce := True\<rparr>, w1)))"

text \<open>
  Whether a call of \<open>Close\<close> returns: the only call in it that can block for ever is
  \<open>GracefulStop\<close>, which the body reaches on a server that is listening and not closing.
  \<open>close_blocked\<close> is the state in which such a call stays: the channel is closed, the
  gRPC listeners are closed, nothing else is stopped, and the guard is held, so that no
  other call of \<open>Close\<close> does anything.
\<close>

definition Close_returns :: "env \<Rightarrow> Server \<Rightarrow> bool" where
  "Close_returns e s =
     (if closeOnce s then True
      else if listening s = Some Open
      then (case grpc s of None \<Rightarrow> True | Some g \<Rightarrow> GracefulStop_returns e g)
      else True)"

definition close_blocked :: "Server \<Rightarrow> world \<Rightarrow> Server \<times> world" where
  "close_blocked s w =
     (case close_listening s w of
        (s1, w1) \<Rightarrow>
          (case grpc s1 of
             None \<Rightarrow> (s1\<lparr>closeOnce := True\<rparr>, w1)
           | Some g \<Rightarrow>
               (s1\<lparr>grpc := Some (g\<lparr>lis := [], stopped := True\<rparr>), closeOnce := True\<rparr>,
                w1\<lparr>open_listeners := open_listeners w1 - set (lis g),
                   trace := trace w1 @ [Ev_GracefulStop]\<rparr>)))"

subsection \<open>ListenAndServe\<close>

text \<open>
  How a call ends: it is still blocked (in the \<open>select\<close> on the signal channel, or in a
  deferred \<open>Close\<close> that does not return), it returned, it panicked in its own goroutine
  (the deferred calls run), or a panic in another goroutine took the process down.
\<close>

datatype ret = Blocked | Returned "error option" | Panicked | Crashed

text \<open>
  How the start of an accept loop ends: the loop serves the listener, the call returned
  an error, or it panicked.
\<close>

datatype serve_result = Serving | Failed error | Panic

text \<open>
  \<open>serveHTTP\<close>: \<open>Serve\<close> without TLS material, \<open>ServeTLS\<close> with it, on the listener it is
  given. On a nil listener the call panics. On a server that was shut down it closes the
  listener and returns \<open>ErrServerClosed\<close>. Otherwise the loop serves the listener; a
  loop that fails later is not followed further.
\<close>

definition serveHTTP ::
  "ServerConfiguration \<Rightarrow> http_Server \<Rightarrow> Listener option \<Rightarrow> world \<Rightarrow> serve_result \<times> http_Server \<times> world" where
  "serveHTTP cfg srv l w =
     (case l of
        None \<Rightarrow> (Panic, srv, w)
      | Some ln \<Rightarrow>
          if inShutdown srv
          then (Failed (New_error ''http: Server closed''), srv,
                w\<lparr>open_listeners := open_listeners w - {fd ln}\<rparr>)
          else (Serving, srv\<lparr>tracked := tracked srv @ [fd ln]\<rparr>,
                w\<lparr>trace := trace w @ [Ev_Serve (fd ln) (TLS cfg \<noteq> None)]\<rparr>))"

text \<open>\<open>grpc.Server.Serve\<close>, in the same way.\<close>

definition grpc_Serve ::
  "grpc_Server \<Rightarrow> Listener option \<Rightarrow> world \<Rightarrow> serve_result \<times> grpc_Server \<times> world" where
  "grpc_Serve g l w =
     (case l of
        None \<Rightarrow> (Panic, g, w)
      | Some ln \<Rightarrow>
          if stopped g
          then (Failed (New_error ''grpc: the server has been stopped''), g,
                w\<lparr>open_listeners := open_listeners w - {fd ln}\<rparr>)
          else (Serving, g\<lparr>lis := lis g @ [fd ln]\<rparr>,
                w\<lparr>trace := trace w @ [Ev_Serve (fd ln) (creds g)]\<rparr>))"

text \<open>
  The bodies of the three goroutines that \<open>ListenAndServe\<close> starts. Each reads the server
  and the listener field of its protocol when it runs, not when the \<open>go\<close> statement is
  executed. The result \<open>True\<close> is a panic: the process dies. An accept loop whose start
  returns an error logs it and calls \<open>Close\<close>.
\<close>

definition debug_loop :: "env \<Rightarrow> ServerConfiguration \<Rightarrow> Server \<Rightarrow> world \<Rightarrow> bool \<times> Server \<times> world" where
  "debug_loop e srv s w =
     (case debug s of
        None \<Rightarrow> (True, s, w)
      | Some d \<Rightarrow>
          (case serveHTTP srv d (debugListener s) w of
             (Panic, d1, w1) \<Rightarrow> (True, s, w1)
           | (Serving, d1, w1) \<Rightarrow> (False, s\<lparr>debug := Some d1\<rparr>, w1)
           | (Failed err, d1, w1) \<Rightarrow>
               (case Close e s
                       (Logger_log ErrorLevel
                          ''debug server encountered an error - closing remaining servers.'' w1) of
                  (r, s2, w2) \<Rightarrow> (False, s2, w2))))"

definition http_loop :: "env \<Rightarrow> ServerConfiguration \<Rightarrow> Server \<Rightarrow> world \<Rightarrow> bool \<times> Server \<times> world" where
  "http_loop e srv s w =
     (case http s of
        None \<Rightarrow> (True, s, w)
      | Some h \<Rightarrow>
          (case serveHTTP srv h (httpListener s) w of
             (Panic, h1, w1) \<Rightarrow> (True, s, w1)
           | (Serving, h1, w1) \<Rightarrow> (False, s\<lparr>http := Some h1\<rparr>, w1)
           | (Failed err, h1, w1) \<Rightarrow>
               (case Close e s
                       (Logger_log ErrorLevel
                          ''HTTP server encountered an error - closing remaining servers.'' w1) of
                  (r, s2, w2) \<Rightarrow> (False, s2, w2))))"

definition grpc_loop :: "env \<Rightarrow> Server \<Rightarrow> world \<Rightarrow> bool \<times> Server \<times> world" where
  "grpc_loop e s w =
     (case grpc s of
        None \<Rightarrow> (True, s, w)
      | Some g \<Rightarrow>
          (case grpc_Serve g (grpcListener s) w of
             (Panic, g1, w1) \<Rightarrow> (True, s, w1)
           | (Serving, g1, w1) \<Rightarrow> (False, s\<lparr>grpc := Some g1\<rparr>, w1)
           | (Failed err, g1, w1) \<Rightarrow>
               (case Close e s
                       (Logger_log ErrorLevel
                          ''gRPC server encountered an error - closing remaining servers.'' w1) of
                  (r, s2, w2) \<Rightarrow> (False, s2, w2))))"

text \<open>
  Running the goroutine of a protocol; the configuration entry that its closure holds does
  not change. The result \<open>Some Crashed\<close> is the process brought down by its panic.
\<close>

definition run_loop :: "env \<Rightarrow> service \<Rightarrow> Server \<Rightarrow> world \<Rightarrow> ret option \<times> Server \<times> world" where
  "run_loop e svc s w =
     (case service_config s svc of
        None \<Rightarrow> (None, s, w)
      | Some srv \<Rightarrow>
          (case (case svc of
                   SvcDebug \<Rightarrow> debug_loop e srv s w
                 | SvcHTTP \<Rightarrow> http_loop e srv s w
                 | SvcGRPC \<Rightarrow> grpc_loop e s w) of
             (True, s1, w1) \<Rightarrow> (Some Crashed, s1, w1)
           | (False, s1, w1) \<Rightarrow> (None, s1, w1)))"

fun run_loops :: "env \<Rightarrow> service list \<Rightarrow> Server \<Rightarrow> world \<Rightarrow> ret option \<times> Server \<times> world" where
  "run_loops e [] s w = (None, s, w)"
| "run_loops e (svc # svcs) s w =
     (case run_loop e svc s w of
        (Some r, s1, w1) \<Rightarrow> (Some r, s1, w1)
      | (None, s1, w1) \<Rightarrow> run_loops e svcs s1 w1)"

text \<open>
  The \<open>go\<close> statement: the goroutine runs now, or it joins the goroutines that have not
  run yet.
\<close>

definition go_loop ::
  "env \<Rightarrow> service \<Rightarrow> Server \<Rightarrow> world \<Rightarrow> service list \<Rightarrow> ret option \<times> Server \<times> world \<times> service list" where
  "go_loop e svc s w pend =
     (if sched e svc
      then (case run_loop e svc s w of (r, s1, w1) \<Rightarrow> (r, s1, w1, pend))
      else (None, s, w, pend @ [svc]))"

text \<open>
  The three blocks of \<open>ListenAndServe\<close>. The result \<open>None\<close> goes on to the next block.
  \<open>net.Listen\<close> assigns the listener field also when it fails (to nil).
\<close>

definition listen_debug ::
  "env \<Rightarrow> Server \<Rightarrow> world \<Rightarrow> service list \<Rightarrow> ret option \<times> Server \<times> world \<times> service list" where
  "listen_debug e s w pend =
     (case Debug (Services (config (options s))) of
        None \<Rightarrow> (None, s, w, pend)
      | Some srv \<Rightarrow>
          (case net_Listen e SvcDebug (Address srv) w of
             (Inl err, w1) \<Rightarrow>
               (Some (Returned (Some (Errorf ''failed to start debug server'' err))),
                s\<lparr>debugListener := None\<rparr>, w1, pend)
           | (Inr l, w1) \<Rightarrow>
               (case debug s of
                  None \<Rightarrow> (Some Panicked, s\<lparr>debugListener := Some l\<rparr>, w1, pend)
                | Some d \<Rightarrow>
                    go_loop e SvcDebug
                      (s\<lparr>debugListener := Some l, debug := Some (d\<lparr>Addr := Address srv\<rparr>)\<rparr>)
                      w1 pend)))"

definition listen_http ::
  "env \<Rightarrow> Server \<Rightarrow> world \<Rightarrow> service list \<Rightarrow> ret option \<times> Server \<times> world \<times> service list" where
  "listen_http e s w pend =
     (case HTTP (Services (config (options s))) of
        None \<Rightarrow> (None, s, w, pend)
      | Some srv \<Rightarrow>
          (case net_Listen e SvcHTTP (Address srv) w of
             (Inl err, w1) \<Rightarrow>
               (Some (Returned (Some (Errorf ''failed to start HTTP server'' err))),
                s\<lparr>httpListener := None\<rparr>, w1, pend)
           | (Inr l, w1) \<Rightarrow>
               (case http s of
                  None \<Rightarrow> (Some Panicked, s\<lparr>httpListener := Some l\<rparr>, w1, pend)
                | Some h \<Rightarrow>
                    go_loop e SvcHTTP
                      (s\<lparr>httpListener := Some l, http := Some (h\<lparr>Addr := Address srv\<rparr>)\<rparr>)
                      w1 pend)))"

definition listen_grpc ::
  "env \<Rightarrow> Server \<Rightarrow> world \<Rightarrow> service list \<Rightarrow> ret option \<times> Server \<times> world \<times> service list" where
  "listen_grpc e s w pend =
     (case GRPC (Services (config (options s))) of
        None \<Rightarrow> (None, s, w, pend)
      | Some srv \<Rightarrow>
          (case net_Listen e SvcGRPC (Address srv) w of
             (Inl err, w1) \<Rightarrow>
               (Some (Returned (Some (Errorf ''failed to start gRPC server'' err))),
                s\<lparr>grpcListener := None\<rparr>, w1, pend)
           | (Inr l, w1) \<Rightarrow> go_loop e SvcGRPC (s\<lparr>grpcListener := Some l\<rparr>) w1 pend))"

text \<open>
  \<open>signal.Notify\<close> and the \<open>select\<close> with its single case. Without a signal the call
  blocks for good, and the goroutines that have not run yet run.
\<close>

definition await_signal ::
  "env \<Rightarrow> Server \<Rightarrow> world \<Rightarrow> service list \<Rightarrow> ret \<times> Server \<times> world \<times> service list" where
  "await_signal e s w pend =
     (let w1 = w\<lparr>trace := trace w @ [Ev_Notify]\<rparr>
      in case signal e of
           None \<Rightarrow>
             (case run_loops e pend s w1 of
                (Some r, s1, w2) \<Rightarrow> (r, s1, w2, [])
              | (None, s1, w2) \<Rightarrow> (Blocked, s1, w2, []))
         | Some sig \<Rightarrow>
             (Returned None, s,
              Logger_log InfoLevel (''Received system signal '' @ sig @ '', closing server.'') w1,
              pend))"

text \<open>
  The body of \<open>ListenAndServe\<close> after the \<open>defer\<close> statement, with the goroutines that
  have not run when it ends.
\<close>

definition ListenAndServe_body ::
  "env \<Rightarrow> Server \<Rightarrow> world \<Rightarrow> ret \<times> Server \<times> world \<times> service list" where
  "ListenAndServe_body e s w =
     (case listen_debug e s w [] of
        (Some r, s1, w1, p1) \<Rightarrow> (r, s1, w1, p1)
      | (None, s1, w1, p1) \<Rightarrow>
          (case listen_http e s1 w1 p1 of
             (Some r, s2, w2, p2) \<Rightarrow> (r, s2, w2, p2)
           | (None, s2, w2, p2) \<Rightarrow>
               (case listen_grpc e s2 w2 p2 of
                  (Some r, s3, w3, p3) \<Rightarrow> (r, s3, w3, p3)
                | (None, s3, w3, p3) \<Rightarrow> await_signal e s3 w3 p3)))"

text \<open>The deferred function: \<open>Close\<close>, whose error is logged and dropped.\<close>

definition deferred_Close :: "env \<Rightarrow> Server \<Rightarrow> world \<Rightarrow> Server \<times> world" where
  "deferred_Close e s w =
     (case Close e s w of
        (None, s1, w1) \<Rightarrow> (s1, w1)
      | (Some err, s1, w1) \<Rightarrow> (s1, Logger_log ErrorLevel ''cannot close gracefully'' w1))"

text \<open>
  \<open>ListenAndServe\<close>. When the body ends, the deferred \<open>Close\<close> runs; where that does not
  return, neither does \<open>ListenAndServe\<close>. The goroutines that have not run by then run
  after it, in the state that \<open>Close\<close> has left, and a panic of one of them ends the
  process.
\<close>

definition ListenAndServe :: "env \<Rightarrow> Server \<Rightarrow> world \<Rightarrow> ret \<times> Server \<times> world" where
  "ListenAndServe e s w =
     (case ListenAndServe_body e (s\<lparr>listening := Some Open\<rparr>) w of
        (Blocked, s1, w1, p) \<Rightarrow> (Blocked, s1, w1)
      | (Crashed, s1, w1, p) \<Rightarrow> (Crashed, s1, w1)
      | (r, s1, w1, p) \<Rightarrow>
          if Close_returns e s1
          then (case deferred_Close e s1 w1 of
                  (s2, w2) \<Rightarrow>
                    (case run_loops e p s2 w2 of
                       (Some c, s3, w3) \<Rightarrow> (c, s3, w3)
                     | (None, s3, w3) \<Rightarrow> (r, s3, w3)))
          else (case close_blocked s1 w1 of
                  (s2, w2) \<Rightarrow>
                    (case run_loops e p s2 w2 of
                       (Some c, s3, w3) \<Rightarrow> (c, s3, w3)
                     | (None, s3, w3) \<Rightarrow> (Blocked, s3, w3))))"

subsection \<open>Address queries\<close>

definition httpAddress :: "ServerConfiguration option \<Rightarrow> Listener option \<Rightarrow> string" where
  "httpAddress cfg l =
     (case l of
        None \<Rightarrow> ''''
      | Some ln \<Rightarrow>
          (case cfg of
             None \<Rightarrow> ''http''
           | Some c \<Rightarrow> (if TLS c \<noteq> None then ''https'' else ''http'')) @ ''://'' @ addr ln)"

definition DebugAddress :: "Server \<Rightarrow> string" where
  "DebugAddress s = httpAddress (Debug (Services (config (options s)))) (debugListener s)"

definition HTTPAddress :: "Server \<Rightarrow> string" where
  "HTTPAddress s = httpAddress (HTTP (Services (config (options s)))) (httpListener s)"

definition ReadinessAddress :: "Server \<Rightarrow> string" where
  "ReadinessAddress s = DebugAddress s"

text \<open>
  Modelled from the spec: \<open>ServerConfiguration.GetAddress\<close> of config.go is not among the
  sources. The spec gives the resolved address of a protocol as the empty string if that
  protocol was not configured; for a configured one the getter returns the entry's
  address.
\<close>

definition GetAddress :: "ServerConfiguration option \<Rightarrow> string" where
  "GetAddress cfg = (case cfg of None \<Rightarrow> '''' | Some c \<Rightarrow> Address c)"

definition GRPCAddress :: "Server \<Rightarrow> string" where
  "GRPCAddress s = GetAddress (GRPC (Services (config (options s))))"

subsection \<open>New\<close>

text \<open>
  \<open>Registry.Register\<close>: a collector that is already registered is rejected.
\<close>

definition Register :: "string \<Rightarrow> Registry \<Rightarrow> error option \<times> Registry" where
  "Register c r =
     (if c \<in> set r
      then (Some (New_error ''duplicate metrics collector registration attempted''), r)
      else (None, r @ [c]))"

text \<open>
  \<open>promhttp.InstrumentMetricHandler\<close> registers its two collectors with the registry and
  accepts that they are registered already.
\<close>

definition InstrumentMetricHandler :: "Registry \<Rightarrow> HandlerFunc \<Rightarrow> Registry \<times> HandlerFunc" where
  "InstrumentMetricHandler r h =
     (snd (Register ''promhttp_metric_handler_requests_in_flight''
        (snd (Register ''promhttp_metric_handler_requests_total'' r))), h)"

definition HandlerFor :: "Registry \<Rightarrow> HandlerFunc" where
  "HandlerFor r = (\<lambda>v path. 200)"

definition pprof_Handler :: HandlerFunc where
  "pprof_Handler = (\<lambda>v path. 200)"

text \<open>
  Modelled from the spec: the constant \<open>pprof.Path\<close> of common-go/pprof is not among the
  sources; the spec lists the endpoint as \<open>GET /debug/pprof/*\<close>.
\<close>

definition pprof_Path :: string where
  "pprof_Path = ''/debug/pprof/''"

definition Handle :: "string \<Rightarrow> HandlerFunc \<Rightarrow> ServeMux \<Rightarrow> ServeMux" where
  "Handle pattern h mux = mux @ [(pattern, h)]"

definition initializeDebug :: "Server \<Rightarrow> world \<Rightarrow> error option \<times> Server \<times> world" where
  "initializeDebug s w =
     (let mux = Handle ''/ready'' (ReadyEndpoint (healthHandler (options s))) [];
          w1 = Logger_log DebugLevel ''Serving readiness handler on /ready'' w;
          mux = Handle ''/live'' (LiveEndpoint (healthHandler (options s))) mux;
          w2 = Logger_log DebugLevel ''Serving liveliness handler on /live'' w1;
          (r, h) = InstrumentMetricHandler (metricsRegistry (options s))
                     (HandlerFor (metricsRegistry (options s)));
          mux = Handle ''/metrics'' h mux;
          w3 = Logger_log DebugLevel ''Serving metrics on /metrics'' w2;
          mux = Handle pprof_Path pprof_Handler mux;
          w4 = Logger_log DebugLevel ''Serving profiler on /debug/pprof'' w3
      in (None,
          s\<lparr>options := (options s)\<lparr>metricsRegistry := r\<rparr>,
            debug := Some \<lparr>Handler = mux, Addr = '''', tracked = [], inShutdown = False\<rparr>\<rparr>,
          w4))"

text \<open>
  \<open>initializeGRPC\<close>. The outer \<open>None\<close> is \<open>log.Fatal\<close>: the process exits and the call
  does not return.
\<close>

definition initializeGRPC :: "env \<Rightarrow> Server \<Rightarrow> world \<Rightarrow> error option option \<times> Server \<times> world" where
  "initializeGRPC e s w =
     (case Register ''grpc_server_metrics'' (metricsRegistry (options s)) of
        (Some err, r) \<Rightarrow> (Some (Some (Errorf ''failed to register grpc metrics'' err)), s, w)
      | (None, r) \<Rightarrow>
          (let s1 = s\<lparr>options := (options s)\<lparr>metricsRegistry := r\<rparr>\<rparr>;
               tls = (case GRPC (Services (config (options s))) of
                        None \<Rightarrow> False
                      | Some cfg \<Rightarrow> TLS cfg \<noteq> None)
           in if tls \<and> tls_config e \<noteq> None
              then (None, s1, Logger_log FatalLevel ''cannot load ws-manager certs'' w)
              else (Some None,
                    s1\<lparr>grpc := Some \<lparr>creds = tls, services = [''grpc.health.v1.Health''], lis = [],
                                     stopped = False\<rparr>\<rparr>,
                    w)))"

text \<open>
  \<open>New\<close>. \<open>evaluateOptions\<close> and \<open>defaultOptions\<close> are declared in options.go; what
  \<open>evaluateOptions\<close> returned is the parameter \<open>evaluated\<close>. The result \<open>None\<close> is a
  call that did not return.
\<close>

definition New :: "env \<Rightarrow> string \<Rightarrow> error + options \<Rightarrow> world \<Rightarrow> (error + Server) option \<times> world" where
  "New e name evaluated w =
     (case evaluated of
        Inl err \<Rightarrow> (Some (Inl (Errorf ''invalid config'' err)), w)
      | Inr opts \<Rightarrow>
          (case initializeDebug
                  \<lparr>Name = name, options = opts, debug = None, debugListener = None,
                   http = None, httpMux = None, httpListener = None,
                   grpc = None, grpcListener = None, listening = None, closeOnce = False\<rparr> w of
             (Some err, s1, w1) \<Rightarrow>
               (Some (Inl (Errorf ''failed to initialize debug server'' err)), w1)
           | (None, s1, w1) \<Rightarrow>
               (case initializeGRPC e
                       (s1\<lparr>httpMux := Some [],
                          http := Some \<lparr>Handler = [], Addr = '''', tracked = [], inShutdown = False\<rparr>\<rparr>) w1 of
                  (None, s2, w2) \<Rightarrow> (None, w2)
                | (Some (Some err), s2, w2) \<Rightarrow>
                    (Some (Inl (Errorf ''failed to initialize gRPC server'' err)), w2)
                | (Some None, s2, w2) \<Rightarrow> (Some (Inr s2), w2))))"

subsection \<open>Observations\<close>


definition address_of :: "Server \<Rightarrow> service \<Rightarrow> string" where
  "address_of s svc =
     (case svc of
        SvcDebug \<Rightarrow> DebugAddress s
      | SvcHTTP \<Rightarrow> HTTPAddress s
      | SvcGRPC \<Rightarrow> GRPCAddress s)"

text \<open>What a handler sees of the process when a request arrives.\<close>

definition observe :: "Server \<Rightarrow> world \<Rightarrow> process_view" where
  "observe s w = \<lparr>seen_world = w, seen_addresses = address_of s\<rparr>"

text \<open>
  A request to an HTTP server. The server answers while one of the listeners it serves is
  open; the mux picks the longest pattern that matches: a pattern matches its own path,
  and a pattern that ends in a slash matches every path below it. The handler runs on
  what it sees at the request.
\<close>

definition pattern_matches :: "string \<Rightarrow> string \<Rightarrow> bool" where
  "pattern_matches p path = (p = path \<or> (p \<noteq> [] \<and> last p = CHR ''/'' \<and> prefix p path))"

definition ServeMux_handler :: "ServeMux \<Rightarrow> string \<Rightarrow> HandlerFunc option" where
  "ServeMux_handler mux path =
     map_option snd
       (fold (\<lambda>(p, h) best.
                case best of
                  None \<Rightarrow> Some (p, h)
                | Some (q, g) \<Rightarrow> if length q < length p then Some (p, h) else best)
             (filter (\<lambda>(p, h). pattern_matches p path) mux) None)"

definition accepting :: "http_Server \<Rightarrow> world \<Rightarrow> bool" where
  "accepting srv w = (set (tracked srv) \<inter> open_listeners w \<noteq> {})"

definition http_GET :: "http_Server \<Rightarrow> world \<Rightarrow> process_view \<Rightarrow> string \<Rightarrow> nat option" where
  "http_GET srv w v path =
     (if accepting srv w
      then Some (case ServeMux_handler (Handler srv) path of None \<Rightarrow> 404 | Some h \<Rightarrow> h v path)
      else None)"

text \<open>The readiness probe: \<open>GET /ready\<close> on the debug server.\<close>

definition readiness_probe :: "Server \<Rightarrow> world \<Rightarrow> nat option" where
  "readiness_probe s w =
     (case debug s of None \<Rightarrow> None | Some d \<Rightarrow> http_GET d w (observe s w) ''/ready'')"

text \<open>
  \<open>Close\<close> called by \<open>n\<close> callers. \<open>sync.Once\<close> serialises them: the callers that do not
  run the body wait until it has returned, so \<open>n\<close> concurrent calls act as \<open>n\<close> calls in
  a row, the first of them running the body.
\<close>

fun Close_n :: "nat \<Rightarrow> env \<Rightarrow> Server \<Rightarrow> world \<Rightarrow> error option list \<times> Server \<times> world" where
  "Close_n 0 e s w = ([], s, w)"
| "Close_n (Suc n) e s w =
     (case Close e s w of
        (err, s1, w1) \<Rightarrow>
          (case Close_n n e s1 w1 of
             (errs, s2, w2) \<Rightarrow> (err # errs, s2, w2)))"

text \<open>How often the teardown body was entered: its first statement is a log line.\<close>

definition teardown_runs :: "world \<Rightarrow> nat" where
  "teardown_runs w =
     length (filter (\<lambda>ev. ev = Ev_Log InfoLevel ''Received graceful shutdown request.'') (trace w))"

text \<open>The protocol servers in the order in which a trace stops them.\<close>

fun stopped_service :: "event \<Rightarrow> service option" where
  "stopped_service Ev_GracefulStop = Some SvcGRPC"
| "stopped_service (Ev_Shutdown svc) = Some svc"
| "stopped_service _ = None"

definition stop_sequence :: "event list \<Rightarrow> service list" where
  "stop_sequence tr = List.map_filter stopped_service tr"

text \<open>The events that a step from world \<open>w\<close> to world \<open>w'\<close> added.\<close>

definition events_since :: "world \<Rightarrow> world \<Rightarrow> event list" where
  "events_since w w' = drop (length (trace w)) (trace w')"



text \<open>Every bind of a configured protocol succeeds in this environment.\<close>

definition bind_succeeds :: "env \<Rightarrow> Server \<Rightarrow> service \<Rightarrow> bool" where
  "bind_succeeds e s svc =
     (case service_config s svc of
        None \<Rightarrow> True
      | Some c \<Rightarrow> (case listen_result e svc (Address c) of Inl err \<Rightarrow> False | Inr ra \<Rightarrow> True))"

definition binds_succeed :: "env \<Rightarrow> Server \<Rightarrow> bool" where
  "binds_succeed e s = list_all (bind_succeeds e s) [SvcDebug, SvcHTTP, SvcGRPC]"

text \<open>Every accept loop runs at its \<open>go\<close> statement in this environment.\<close>

definition loops_started :: "env \<Rightarrow> bool" where
  "loops_started e = list_all (sched e) [SvcDebug, SvcHTTP, SvcGRPC]"

text \<open>
  The states inside a run of \<open>close\<close> on a listening server: after the gRPC block, and
  the outcomes of the HTTP block and of the debug block that follow it.
\<close>

definition after_grpc :: "env \<Rightarrow> Server \<Rightarrow> world \<Rightarrow> Server \<times> world" where
  "after_grpc e s w =
     (case close_listening s w of (s1, w1) \<Rightarrow> close_grpc e s1 w1)"

definition http_step :: "env \<Rightarrow> nat \<Rightarrow> Server \<Rightarrow> world \<Rightarrow> error option \<times> Server \<times> world" where
  "http_step e ctx s w =
     (case after_grpc e s w of (s2, w2) \<Rightarrow> close_http e ctx s2 w2)"

definition debug_step :: "env \<Rightarrow> nat \<Rightarrow> Server \<Rightarrow> world \<Rightarrow> error option \<times> Server \<times> world" where
  "debug_step e ctx s w =
     (case http_step e ctx s w of (r, s3, w3) \<Rightarrow> close_debug e ctx s3 w3)"

text \<open>The protocols in the order in which a trace binds their listeners.\<close>

fun listened_service :: "event \<Rightarrow> service option" where
  "listened_service (Ev_Listen svc a) = Some svc"
| "listened_service _ = None"

definition listen_sequence :: "event list \<Rightarrow> service list" where
  "listen_sequence tr = List.map_filter listened_service tr"

text \<open>
  Whether an error of \<open>close\<close> comes from the HTTP step: each step wraps the error of
  its server with a message of its own.
\<close>

fun http_stop_failed :: "error option \<Rightarrow> bool" where
  "http_stop_failed (Some (Errorf m x)) = (m = ''failed to close http server'')"
| "http_stop_failed _ = False"



subsection \<open>Example inputs\<close>

text \<open>
  A configuration with all three protocols, an environment in which every bind succeeds,
  every accept loop runs at its \<open>go\<close> statement and nothing needs to drain, one in which
  the connections of the plain HTTP server outlast the deadline, and the states that
  \<open>New\<close> and \<open>ListenAndServe\<close> reach from them.
\<close>

definition ex_health :: healthcheck_Handler where
  "ex_health = \<lparr>ReadyEndpoint = (\<lambda>v p. 200), LiveEndpoint = (\<lambda>v p. 200)\<rparr>"

definition ex_options :: options where
  "ex_options =
     \<lparr>config = \<lparr>Services = \<lparr>Debug = Some \<lparr>Address = '':9500'', TLS = None\<rparr>,
                            HTTP = Some \<lparr>Address = '':8080'', TLS = None\<rparr>,
                            GRPC = Some \<lparr>Address = '':9501'', TLS = None\<rparr>\<rparr>\<rparr>,
      closeTimeout = 5, metricsRegistry = [], healthHandler = ex_health\<rparr>"

definition ex_options_registered :: options where
  "ex_options_registered = ex_options\<lparr>metricsRegistry := [''grpc_server_metrics'']\<rparr>"

definition ex_env :: env where
  "ex_env = \<lparr>listen_result = (\<lambda>svc a. Inr (''127.0.0.1'' @ a)), sched = (\<lambda>svc. True),
             drain = (\<lambda>svc. 0), lnerr = (\<lambda>svc. None), unending = False,
             signal = None, tls_config = None\<rparr>"

definition ex_env_slow :: env where
  "ex_env_slow = ex_env\<lparr>drain := (\<lambda>svc. if svc = SvcHTTP then 10 else 0)\<rparr>"

definition ex_env_grpc_slow :: env where
  "ex_env_grpc_slow = ex_env\<lparr>drain := (\<lambda>svc. if svc = SvcGRPC then 1000 else 0)\<rparr>"

definition ex_world0 :: world where
  "ex_world0 = \<lparr>open_listeners = {}, next_fd = 0, now = 0, trace = []\<rparr>"

definition ex_debug_mux :: ServeMux where
  "ex_debug_mux =
     [(''/ready'', \<lambda>v p. 200), (''/live'', \<lambda>v p. 200), (''/metrics'', \<lambda>v p. 200),
      (''/debug/pprof/'', \<lambda>v p. 200)]"

definition ex_server :: Server where
  "ex_server =
     \<lparr>Name = ''srv'',
      options = ex_options\<lparr>metricsRegistry :=
        [''promhttp_metric_handler_requests_total'',
         ''promhttp_metric_handler_requests_in_flight'', ''grpc_server_metrics'']\<rparr>,
      debug = Some \<lparr>Handler = ex_debug_mux, Addr = '''', tracked = [], inShutdown = False\<rparr>,
      debugListener = None,
      http = Some \<lparr>Handler = [], Addr = '''', tracked = [], inShutdown = False\<rparr>,
      httpMux = Some [], httpListener = None,
      grpc = Some \<lparr>creds = False, services = [''grpc.health.v1.Health''], lis = [],
                   stopped = False\<rparr>,
      grpcListener = None, listening = None, closeOnce = False\<rparr>"

definition ex_world :: world where
  "ex_world =
     \<lparr>open_listeners = {}, next_fd = 0, now = 0,
      trace = [Ev_Log DebugLevel ''Serving readiness handler on /ready'',
               Ev_Log DebugLevel ''Serving liveliness handler on /live'',
               Ev_Log DebugLevel ''Serving metrics on /metrics'',
               Ev_Log DebugLevel ''Serving profiler on /debug/pprof'']\<rparr>"

definition ex_serving :: Server where
  "ex_serving =
     ex_server
       \<lparr>debug := Some \<lparr>Handler = ex_debug_mux, Addr = '':9500'', tracked = [0],
                       inShutdown = False\<rparr>,
        debugListener := Some \<lparr>fd = 0, addr = ''127.0.0.1:9500''\<rparr>,
        http := Some \<lparr>Handler = [], Addr = '':8080'', tracked = [1], inShutdown = False\<rparr>,
        httpListener := Some \<lparr>fd = 1, addr = ''127.0.0.1:8080''\<rparr>,
        grpc := Some \<lparr>creds = False, services = [''grpc.health.v1.Health''], lis = [2],
                      stopped = False\<rparr>,
        grpcListener := Some \<lparr>fd = 2, addr = ''127.0.0.1:9501''\<rparr>,
        listening := Some Open\<rparr>"

definition ex_serving_world :: world where
  "ex_serving_world =
     \<lparr>open_listeners = {0, 1, 2}, next_fd = 3, now = 0,
      trace = trace ex_world @
        [Ev_Listen SvcDebug '':9500'', Ev_Serve 0 False,
         Ev_Listen SvcHTTP '':8080'', Ev_Serve 1 False,
         Ev_Listen SvcGRPC '':9501'', Ev_Serve 2 False, Ev_Notify]\<rparr>"








text \<open>
  An environment in which the gRPC address is taken and a connection to the plain HTTP
  server stays busy for 10 ticks.
\<close>

definition ex_env_bind_fails :: env where
  "ex_env_bind_fails =
     ex_env\<lparr>listen_result :=
               (\<lambda>svc a. if svc = SvcGRPC
                         then Inl (New_error ''listen tcp :9501: bind: address already in use'')
                         else Inr (''127.0.0.1'' @ a)),
            drain := (\<lambda>svc. if svc = SvcHTTP then 10 else 0)\<rparr>"

text \<open>
  An environment in which a connection to the plain HTTP server stays busy for 10 ticks
  and closing the listener of the debug server gives an error.
\<close>

definition ex_env_both_fail :: env where
  "ex_env_both_fail =
     ex_env\<lparr>drain := (\<lambda>svc. if svc = SvcHTTP then 10 else 0),
            lnerr := (\<lambda>svc. if svc = SvcDebug
                             then Some (New_error ''close tcp: use of closed network connection'')
                             else None)\<rparr>"


text \<open>The server on which \<open>Close\<close> was called before \<open>ListenAndServe\<close>.\<close>

definition ex_server_closed :: Server where
  "ex_server_closed = ex_server\<lparr>closeOnce := True\<rparr>"

text \<open>
  An environment in which the gRPC address is taken and no accept loop runs before
  \<open>ListenAndServe\<close> has run its deferred call.
\<close>

definition ex_env_late :: env where
  "ex_env_late =
     ex_env\<lparr>listen_result :=
               (\<lambda>svc a. if svc = SvcGRPC
                         then Inl (New_error ''listen tcp :9501: bind: address already in use'')
                         else Inr (''127.0.0.1'' @ a)),
            sched := (\<lambda>svc. False)\<rparr>"






section \<open>Basic facts\<close>

subsection \<open>Unfolding\<close>

lemmas ex_defs = ex_health_def ex_options_def ex_env_def ex_world0_def ex_debug_mux_def
  ex_server_def ex_world_def ex_serving_def ex_serving_world_def





lemmas listen_defs = ListenAndServe_def ListenAndServe_body_def listen_debug_def
  listen_http_def listen_grpc_def await_signal_def net_Listen_def go_loop_def run_loop_def
  debug_loop_def http_loop_def grpc_loop_def serveHTTP_def grpc_Serve_def service_config_def
  deferred_Close_def Close_returns_def GracefulStop_returns_def close_blocked_def

lemmas close_defs = Close_def close_def close_listening_def close_grpc_def close_http_def
  close_debug_def http_Shutdown_def GracefulStop_def isClosing_def

subsection \<open>The examples\<close>



subsection \<open>The once-guard\<close>

lemma Close_consumed: "closeOnce s \<Longrightarrow> Close e s w = (None, s, w)"
  by (simp add: Close_def)

lemma Close_consumes: "closeOnce (fst (snd (Close e s w)))"
  by (simp add: Close_def Let_def split: prod.splits)

lemma Close_n_consumed: "closeOnce s \<Longrightarrow> Close_n n e s w = (replicate n None, s, w)"
  by (induction n) (simp_all add: Close_consumed)

lemma Close_n_Suc:
  "Close_n (Suc n) e s w = (fst (Close e s w) # replicate n None, snd (Close e s w))"
proof -
  obtain err s1 w1 where c: "Close e s w = (err, s1, w1)"
    by (cases "Close e s w") auto
  have "closeOnce s1" using Close_consumes [of e s w] c by simp
  then show ?thesis using c by (simp add: Close_n_consumed)
qed


subsection \<open>The trace of close\<close>

lemma trace_Logger_log [simp]: "trace (Logger_log l m w) = trace w @ [Ev_Log l m]"
  by (simp add: Logger_log_def)

lemma trace_close_listening:
  "trace (snd (close_listening s w)) =
     trace w @ [Ev_Log InfoLevel ''Received graceful shutdown request.'']"
  by (simp add: close_listening_def)

lemma trace_close_grpc:
  "trace (snd (close_grpc e s w)) =
     trace w @ (case grpc s of None \<Rightarrow> []
                | Some g \<Rightarrow> [Ev_GracefulStop, Ev_Log InfoLevel ''GRPC server terminated.''])"
  by (simp add: close_grpc_def GracefulStop_def split: option.splits)

lemma trace_http_Shutdown:
  "trace (snd (snd (http_Shutdown e svc ctx srv w))) = trace w @ [Ev_Shutdown svc]"
  by (simp add: http_Shutdown_def Let_def)

lemma trace_close_http:
  "trace (snd (snd (close_http e ctx s w))) =
     trace w @ (case http s of None \<Rightarrow> []
                | Some h \<Rightarrow> Ev_Shutdown SvcHTTP #
                    (if fst (close_http e ctx s w) = None
                     then [Ev_Log InfoLevel ''HTTP server terminated.''] else []))"
proof (cases "http s")
  case None
  then show ?thesis by (simp add: close_http_def)
next
  case (Some h)
  obtain r h1 w1 where sh: "http_Shutdown e SvcHTTP ctx h w = (r, h1, w1)"
    by (cases "http_Shutdown e SvcHTTP ctx h w") auto
  have "trace w1 = trace w @ [Ev_Shutdown SvcHTTP]"
    using trace_http_Shutdown [of e SvcHTTP ctx h w] sh by simp
  then show ?thesis using Some sh by (cases r) (simp_all add: close_http_def)
qed

lemma trace_close_debug:
  "trace (snd (snd (close_debug e ctx s w))) =
     trace w @ (case debug s of None \<Rightarrow> []
                | Some h \<Rightarrow> Ev_Shutdown SvcDebug #
                    (if fst (close_debug e ctx s w) = None
                     then [Ev_Log InfoLevel ''Debug server terminated.''] else []))"
proof (cases "debug s")
  case None
  then show ?thesis by (simp add: close_debug_def)
next
  case (Some h)
  obtain r h1 w1 where sh: "http_Shutdown e SvcDebug ctx h w = (r, h1, w1)"
    by (cases "http_Shutdown e SvcDebug ctx h w") auto
  have "trace w1 = trace w @ [Ev_Shutdown SvcDebug]"
    using trace_http_Shutdown [of e SvcDebug ctx h w] sh by simp
  then show ?thesis using Some sh by (cases r) (simp_all add: close_debug_def)
qed

lemma fst_close_http_cases:
  "fst (close_http e ctx s w) = None \<or>
   (\<exists>x. fst (close_http e ctx s w) = Some (Errorf ''failed to close http server'' x))"
  by (simp add: close_http_def split: option.splits prod.splits)

lemma fst_close_debug_cases:
  "fst (close_debug e ctx s w) = None \<or>
   (\<exists>x. fst (close_debug e ctx s w) = Some (Errorf ''failed to close debug server'' x))"
  by (simp add: close_debug_def split: option.splits prod.splits)

lemma servers_close_listening [simp]:
  "grpc (fst (close_listening s w)) = grpc s"
  "http (fst (close_listening s w)) = http s"
  "debug (fst (close_listening s w)) = debug s"
  by (simp_all add: close_listening_def)

lemma servers_close_grpc [simp]:
  "http (fst (close_grpc e s w)) = http s"
  "debug (fst (close_grpc e s w)) = debug s"
  by (simp_all add: close_grpc_def split: option.splits prod.splits)

lemma servers_close_http [simp]:
  "debug (fst (snd (close_http e ctx s w))) = debug s"
  by (simp add: close_http_def split: option.splits prod.splits)

lemma close_Open:
  assumes "listening s = Some Open"
  shows "close e ctx s w =
           (case close_listening s w of
              (s1, w1) \<Rightarrow>
                (case close_grpc e s1 w1 of
                   (s2, w2) \<Rightarrow>
                     (case close_http e ctx s2 w2 of
                        (Some err, s3, w3) \<Rightarrow> (Some err, s3, w3)
                      | (None, s3, w3) \<Rightarrow> close_debug e ctx s3 w3)))"
  using assms by (simp add: close_def isClosing_def)

lemma close_trace:
  assumes "listening s = Some Open"
  shows "trace (snd (snd (close e ctx s w))) =
           trace w @ [Ev_Log InfoLevel ''Received graceful shutdown request.''] @
           (case grpc s of None \<Rightarrow> []
            | Some g \<Rightarrow> [Ev_GracefulStop, Ev_Log InfoLevel ''GRPC server terminated.'']) @
           (case http s of None \<Rightarrow> []
            | Some h \<Rightarrow> Ev_Shutdown SvcHTTP #
                (if http_stop_failed (fst (close e ctx s w)) then []
                 else [Ev_Log InfoLevel ''HTTP server terminated.''])) @
           (if http_stop_failed (fst (close e ctx s w)) then []
            else (case debug s of None \<Rightarrow> []
                  | Some d \<Rightarrow> Ev_Shutdown SvcDebug #
                      (if fst (close e ctx s w) = None
                       then [Ev_Log InfoLevel ''Debug server terminated.''] else [])))"
proof -
  obtain s1 w1 where c1: "close_listening s w = (s1, w1)"
    by (cases "close_listening s w") auto
  obtain s2 w2 where c2: "close_grpc e s1 w1 = (s2, w2)"
    by (cases "close_grpc e s1 w1") auto
  obtain r3 s3 w3 where c3: "close_http e ctx s2 w2 = (r3, s3, w3)"
    by (cases "close_http e ctx s2 w2") auto
  have g: "grpc s1 = grpc s" and h: "http s2 = http s" and d: "debug s3 = debug s"
    using servers_close_listening [of s w] servers_close_grpc [of e s1 w1]
      servers_close_http [of e ctx s2 w2] c1 c2 c3 by simp_all
  have t1: "trace w1 = trace w @ [Ev_Log InfoLevel ''Received graceful shutdown request.'']"
    using trace_close_listening [of s w] by (simp add: c1)
  have t2: "trace w2 = trace w1 @
      (case grpc s of None \<Rightarrow> []
       | Some g \<Rightarrow> [Ev_GracefulStop, Ev_Log InfoLevel ''GRPC server terminated.''])"
    using trace_close_grpc [of e s1 w1] g by (simp add: c2)
  have t3: "trace w3 = trace w2 @
      (case http s of None \<Rightarrow> []
       | Some h \<Rightarrow> Ev_Shutdown SvcHTTP #
           (if r3 = None then [Ev_Log InfoLevel ''HTTP server terminated.''] else []))"
    using trace_close_http [of e ctx s2 w2] h by (simp add: c3 split: option.splits)
  show ?thesis
  proof (cases r3)
    case None
    then have cl: "close e ctx s w = close_debug e ctx s3 w3"
      using c1 c2 c3 by (simp add: close_Open [OF assms])
    have nf: "\<not> http_stop_failed (fst (close_debug e ctx s3 w3))"
      using fst_close_debug_cases [of e ctx s3 w3] by auto
    show ?thesis
      using trace_close_debug [of e ctx s3 w3] nf None
      by (auto simp add: cl t1 t2 t3 d split: option.splits)
  next
    case (Some err)
    then have cl: "close e ctx s w = (Some err, s3, w3)"
      using c1 c2 c3 by (simp add: close_Open [OF assms])
    have f: "http_stop_failed (Some err)" and hs: "http s \<noteq> None"
      using fst_close_http_cases [of e ctx s2 w2] c3 Some h
      by (auto simp: close_http_def split: option.splits)
    show ?thesis using f hs Some by (auto simp add: cl t1 t2 t3)
  qed
qed

lemma teardown_runs_close:
  assumes "listening s = Some Open"
  shows "teardown_runs (snd (snd (close e ctx s w))) = Suc (teardown_runs w)"
  by (simp add: teardown_runs_def close_trace [OF assms] split: option.splits)

lemma ex_Close_slow:
  "fst (Close ex_env_slow ex_serving ex_serving_world) =
     Some (Errorf ''failed to close http server'' (New_error ''context deadline exceeded''))"
  by (simp add: close_defs Logger_log_def ex_defs ex_env_slow_def)

lemma stop_sequence_append [simp]:
  "stop_sequence (xs @ ys) = stop_sequence xs @ stop_sequence ys"
  by (induction xs) (simp_all add: stop_sequence_def split: option.splits)

lemma stop_sequence_simps [simp]:
  "stop_sequence [] = []"
  "stop_sequence (ev # evs) =
     (case stopped_service ev of None \<Rightarrow> stop_sequence evs | Some svc \<Rightarrow> svc # stop_sequence evs)"
  by (simp_all add: stop_sequence_def split: option.splits)



subsection \<open>The clock\<close>

lemma now_Logger_log [simp]: "now (Logger_log l m w) = now w"
  by (simp add: Logger_log_def)

lemma now_http_Shutdown:
  "now w \<le> now (snd (snd (http_Shutdown e svc ctx srv w))) \<and>
   now (snd (snd (http_Shutdown e svc ctx srv w))) \<le> max (now w) ctx"
  by (simp add: http_Shutdown_def Let_def)

lemma now_close_http:
  "now w \<le> now (snd (snd (close_http e ctx s w))) \<and>
   now (snd (snd (close_http e ctx s w))) \<le> max (now w) ctx"
proof (cases "http s")
  case None
  then show ?thesis by (simp add: close_http_def)
next
  case (Some h)
  obtain r h1 w1 where sh: "http_Shutdown e SvcHTTP ctx h w = (r, h1, w1)"
    by (cases "http_Shutdown e SvcHTTP ctx h w") auto
  then show ?thesis
    using now_http_Shutdown [of w e SvcHTTP ctx h] Some
    by (cases r) (simp_all add: close_http_def)
qed

lemma now_close_debug:
  "now w \<le> now (snd (snd (close_debug e ctx s w))) \<and>
   now (snd (snd (close_debug e ctx s w))) \<le> max (now w) ctx"
proof (cases "debug s")
  case None
  then show ?thesis by (simp add: close_debug_def)
next
  case (Some h)
  obtain r h1 w1 where sh: "http_Shutdown e SvcDebug ctx h w = (r, h1, w1)"
    by (cases "http_Shutdown e SvcDebug ctx h w") auto
  then show ?thesis
    using now_http_Shutdown [of w e SvcDebug ctx h] Some
    by (cases r) (simp_all add: close_debug_def)
qed

lemma now_close_grpc:
  "now w \<le> now (snd (close_grpc e s w)) \<and>
   now (snd (close_grpc e s w)) \<le> now w + drain e SvcGRPC"
  by (simp add: close_grpc_def GracefulStop_def split: option.splits)

lemma now_close_listening [simp]: "now (snd (close_listening s w)) = now w"
  by (simp add: close_listening_def)

lemma now_close:
  "now w \<le> now (snd (snd (close e ctx s w))) \<and>
   now (snd (snd (close e ctx s w))) \<le> max ctx (now w + drain e SvcGRPC)"
proof (cases "listening s = Some Open")
  case False
  show ?thesis
  proof (cases "listening s")
    case None
    then show ?thesis by (simp add: close_def)
  next
    case (Some c)
    then have "c = Closed" using False by (cases c) auto
    then show ?thesis using Some by (simp add: close_def isClosing_def)
  qed
next
  case True
  obtain s1 w1 where c1: "close_listening s w = (s1, w1)"
    by (cases "close_listening s w") auto
  obtain s2 w2 where c2: "close_grpc e s1 w1 = (s2, w2)"
    by (cases "close_grpc e s1 w1") auto
  obtain r3 s3 w3 where c3: "close_http e ctx s2 w2 = (r3, s3, w3)"
    by (cases "close_http e ctx s2 w2") auto
  have n1: "now w1 = now w" using now_close_listening [of s w] by (simp add: c1)
  have n2: "now w1 \<le> now w2 \<and> now w2 \<le> now w1 + drain e SvcGRPC"
    using now_close_grpc [of w1 e s1] by (simp add: c2)
  have n3: "now w2 \<le> now w3 \<and> now w3 \<le> max (now w2) ctx"
    using now_close_http [of w2 e ctx s2] by (simp add: c3)
  have n4: "now w3 \<le> now (snd (snd (close_debug e ctx s3 w3))) \<and>
      now (snd (snd (close_debug e ctx s3 w3))) \<le> max (now w3) ctx"
    by (rule now_close_debug)
  show ?thesis
  proof (cases r3)
    case None
    then have "close e ctx s w = close_debug e ctx s3 w3"
      using c1 c2 c3 by (simp add: close_Open [OF True])
    then show ?thesis using n1 n2 n3 n4 by auto
  next
    case (Some err)
    then have "close e ctx s w = (Some err, s3, w3)"
      using c1 c2 c3 by (simp add: close_Open [OF True])
    then show ?thesis using n1 n2 n3 by auto
  qed
qed

subsection \<open>The steps of close\<close>

lemma close_steps:
  assumes "listening s = Some Open"
  shows "close e ctx s w =
           (case fst (http_step e ctx s w) of
              Some err \<Rightarrow> http_step e ctx s w
            | None \<Rightarrow> debug_step e ctx s w)"
  by (simp add: close_Open [OF assms] http_step_def debug_step_def after_grpc_def
      split: prod.splits option.splits)

subsection \<open>New\<close>

lemma listen_sequence_simps [simp]:
  "listen_sequence [] = []"
  "listen_sequence (ev # evs) =
     (case listened_service ev of None \<Rightarrow> listen_sequence evs
      | Some svc \<Rightarrow> svc # listen_sequence evs)"
  by (simp_all add: listen_sequence_def split: option.splits)

lemma listen_sequence_append [simp]:
  "listen_sequence (xs @ ys) = listen_sequence xs @ listen_sequence ys"
  by (induction xs) (simp_all split: option.splits)

lemma Register_rejects_superset:
  assumes "fst (Register c r) = Some err"
  shows "fst (Register c (snd (Register c' r))) = Some err"
  using assms by (auto simp: Register_def split: if_splits)

lemma initializeDebug_world:
  "open_listeners (snd (snd (initializeDebug s w))) = open_listeners w \<and>
   next_fd (snd (snd (initializeDebug s w))) = next_fd w \<and>
   listen_sequence (events_since w (snd (snd (initializeDebug s w)))) = []"
  by (simp add: initializeDebug_def Logger_log_def Let_def events_since_def split: prod.splits)

lemma initializeDebug_registry:
  "metricsRegistry (options (fst (snd (initializeDebug s w)))) =
     snd (Register ''promhttp_metric_handler_requests_in_flight''
        (snd (Register ''promhttp_metric_handler_requests_total''
           (metricsRegistry (options s)))))"
  by (simp add: initializeDebug_def InstrumentMetricHandler_def Let_def split: prod.splits)

lemma fst_initializeDebug [simp]: "fst (initializeDebug s w) = None"
  by (simp add: initializeDebug_def Let_def split: prod.splits)

lemma initializeGRPC_rejected:
  assumes "fst (Register ''grpc_server_metrics'' (metricsRegistry (options s))) = Some err"
  shows "initializeGRPC e s w =
           (Some (Some (Errorf ''failed to register grpc metrics'' err)), s, w)"
  using assms by (cases "Register ''grpc_server_metrics'' (metricsRegistry (options s))")
    (simp add: initializeGRPC_def)


subsection \<open>The steps of ListenAndServe\<close>









subsection \<open>The state in which ListenAndServe waits\<close>








subsection \<open>The listeners that the steps of close leave open\<close>








subsection \<open>The signal\<close>

lemma library_signal [simp]:
  "GracefulStop (e\<lparr>signal := x\<rparr>) g w = GracefulStop e g w"
  "http_Shutdown (e\<lparr>signal := x\<rparr>) svc ctx h w = http_Shutdown e svc ctx h w"
  by (simp_all add: GracefulStop_def http_Shutdown_def Let_def)

lemma close_steps_signal [simp]:
  "close_grpc (e\<lparr>signal := x\<rparr>) s w = close_grpc e s w"
  "close_http (e\<lparr>signal := x\<rparr>) ctx s w = close_http e ctx s w"
  "close_debug (e\<lparr>signal := x\<rparr>) ctx s w = close_debug e ctx s w"
  by (simp_all add: close_grpc_def close_http_def close_debug_def cong: option.case_cong)

lemma close_signal [simp]: "close (e\<lparr>signal := x\<rparr>) ctx s w = close e ctx s w"
  by (simp add: close_def split: prod.splits option.splits)

lemma Close_signal [simp]: "Close (e\<lparr>signal := x\<rparr>) s w = Close e s w"
  by (simp add: Close_def)

lemma Close_returns_signal [simp]: "Close_returns (e\<lparr>signal := x\<rparr>) s = Close_returns e s"
  by (simp add: Close_returns_def GracefulStop_returns_def cong: option.case_cong)

lemma deferred_Close_signal [simp]:
  "deferred_Close (e\<lparr>signal := x\<rparr>) s w = deferred_Close e s w"
  by (simp add: deferred_Close_def)

lemma loops_signal [simp]:
  "debug_loop (e\<lparr>signal := x\<rparr>) c s w = debug_loop e c s w"
  "http_loop (e\<lparr>signal := x\<rparr>) c s w = http_loop e c s w"
  "grpc_loop (e\<lparr>signal := x\<rparr>) s w = grpc_loop e s w"
  by (simp_all add: debug_loop_def http_loop_def grpc_loop_def
      split: option.splits prod.splits serve_result.splits)

lemma run_loop_signal [simp]: "run_loop (e\<lparr>signal := x\<rparr>) svc s w = run_loop e svc s w"
  by (simp add: run_loop_def split: option.splits service.splits)

lemma go_loop_signal [simp]: "go_loop (e\<lparr>signal := x\<rparr>) svc s w p = go_loop e svc s w p"
  by (simp add: go_loop_def)

lemma net_Listen_signal [simp]:
  "net_Listen (e\<lparr>signal := x\<rparr>) svc a w = net_Listen e svc a w"
  by (simp add: net_Listen_def)

lemma listen_signal [simp]:
  "listen_debug (e\<lparr>signal := x\<rparr>) s w p = listen_debug e s w p"
  "listen_http (e\<lparr>signal := x\<rparr>) s w p = listen_http e s w p"
  "listen_grpc (e\<lparr>signal := x\<rparr>) s w p = listen_grpc e s w p"
  by (simp_all add: listen_debug_def listen_http_def listen_grpc_def
      split: option.splits prod.splits sum.splits)

lemma binds_succeed_signal [simp]: "binds_succeed (e\<lparr>signal := x\<rparr>) s = binds_succeed e s"
  by (simp add: binds_succeed_def bind_succeeds_def cong: option.case_cong)

lemma loops_started_signal [simp]: "loops_started (e\<lparr>signal := x\<rparr>) = loops_started e"
  by (simp add: loops_started_def)

lemma stop_sequence_drop_log [simp]: "stop_sequence (drop k [Ev_Log l m]) = []"
  by (cases k) simp_all






subsection \<open>Accept loops that run after the deferred Close\<close>

text \<open>
  Where a bind fails and the accept loop of the debug server is scheduled only after the
  deferred \<open>Close\<close>, the loop finds the listener field set to nil, and the process dies
  of the panic in \<open>Serve\<close>.
\<close>

lemma late_loop_crashes: "fst (ListenAndServe ex_env_late ex_server ex_world) = Crashed"
  by (simp add: listen_defs close_defs Logger_log_def ex_defs ex_env_late_def)

section \<open>Close is run once\<close>

text \<open>
  C1, as amended. On a server that is listening and whose once-guard is not consumed,
  \<open>n + 1\<close> calls of \<open>Close\<close> enter the teardown body exactly once. The first caller
  receives what \<open>close\<close> returns, run with the deadline of that caller, and leaves the
  state that \<open>close\<close> leaves, with the guard consumed; every other caller receives \<open>nil\<close>,
  whatever the teardown returned, and changes nothing.
\<close>

theorem Close_n_once:
  assumes "listening s = Some Open" and "\<not> closeOnce s"
    and "ctx = now w + closeTimeout (options s)"
  shows "Close_n (Suc n) e s w =
           (fst (close e ctx s w) # replicate n None,
            (fst (snd (close e ctx s w)))\<lparr>closeOnce := True\<rparr>,
            snd (snd (close e ctx s w))) \<and>
         teardown_runs (snd (snd (Close_n (Suc n) e s w))) = Suc (teardown_runs w)"
proof -
  have c: "Close e s w =
      (fst (close e ctx s w), (fst (snd (close e ctx s w)))\<lparr>closeOnce := True\<rparr>,
       snd (snd (close e ctx s w)))"
    using assms(2,3) by (simp add: Close_def split: prod.splits)
  have "teardown_runs (snd (snd (Close e s w))) = Suc (teardown_runs w)"
    using teardown_runs_close [OF assms(1), of e ctx w] by (simp add: c)
  then show ?thesis by (simp add: Close_n_Suc c del: Close_n.simps)
qed

theorem Close_n_once_witness:
  "listening ex_serving = Some Open \<and> \<not> closeOnce ex_serving \<and>
   now ex_serving_world + closeTimeout (options ex_serving) = 5 \<and>
   fst (close ex_env_slow 5 ex_serving ex_serving_world) =
     Some (Errorf ''failed to close http server'' (New_error ''context deadline exceeded'')) \<and>
   fst (Close_n (Suc 2) ex_env_slow ex_serving ex_serving_world) =
     [Some (Errorf ''failed to close http server'' (New_error ''context deadline exceeded'')),
      None, None] \<and>
   teardown_runs (snd (snd (Close_n (Suc 2) ex_env_slow ex_serving ex_serving_world))) =
     Suc (teardown_runs ex_serving_world)"
proof -
  have h1: "listening ex_serving = Some Open" and h2: "\<not> closeOnce ex_serving"
    and h3: "now ex_serving_world + closeTimeout (options ex_serving) = 5"
    by (simp_all add: ex_defs)
  have r: "fst (close ex_env_slow 5 ex_serving ex_serving_world) =
     Some (Errorf ''failed to close http server'' (New_error ''context deadline exceeded''))"
    by (simp add: close_defs Logger_log_def ex_defs ex_env_slow_def)
  note t = Close_n_once [OF h1 h2 h3 [symmetric], of 2 ex_env_slow]
  have a: "fst (Close_n (Suc 2) ex_env_slow ex_serving ex_serving_world) =
     [Some (Errorf ''failed to close http server'' (New_error ''context deadline exceeded'')),
      None, None]"
    using t by (simp add: r numeral_2_eq_2 del: Close_n.simps)
  show ?thesis using h1 h2 h3 r a t by blast
qed

text \<open>
  The claim as stated fails: when the plain HTTP server does not drain before the deadline,
  the first of two callers receives the error and the second receives \<open>nil\<close>.
\<close>

theorem Close_n_results_differ:
  "fst (Close_n 2 ex_env_slow ex_serving ex_serving_world) =
     [Some (Errorf ''failed to close http server'' (New_error ''context deadline exceeded'')),
      None]"
  by (simp add: numeral_2_eq_2 Close_n_Suc ex_Close_slow del: Close_n.simps)

section \<open>The order of the shutdown sequence\<close>

text \<open>
  C2. The claim: in every execution of the shutdown sequence the three protocol servers
  are stopped, first the gRPC server, then the plain HTTP server, and the debug server
  last. The code stops the gRPC server and then the HTTP server, and where the HTTP stop
  fails it returns before the block of the debug server. Evaluated on the serving server
  with a connection to the plain HTTP server that outlasts the deadline: \<open>Close\<close> returns
  the HTTP error after the stop calls for gRPC and HTTP only; the debug server is not
  stopped, its listener (descriptor 0) stays open and held, its readiness probe still
  answers, and the once-guard is consumed. Where every server drains at once, the same
  call stops all three in the order of the claim, and no listener stays open.
\<close>

theorem Close_leaves_debug_running:
  "fst (Close ex_env_slow ex_serving ex_serving_world) =
     Some (Errorf ''failed to close http server'' (New_error ''context deadline exceeded'')) \<and>
   stop_sequence (events_since ex_serving_world
       (snd (snd (Close ex_env_slow ex_serving ex_serving_world)))) = [SvcGRPC, SvcHTTP] \<and>
   open_listeners (snd (snd (Close ex_env_slow ex_serving ex_serving_world))) = {0} \<and>
   debugListener (fst (snd (Close ex_env_slow ex_serving ex_serving_world))) =
     Some \<lparr>fd = 0, addr = ''127.0.0.1:9500''\<rparr> \<and>
   readiness_probe (fst (snd (Close ex_env_slow ex_serving ex_serving_world)))
     (snd (snd (Close ex_env_slow ex_serving ex_serving_world))) = Some 200 \<and>
   closeOnce (fst (snd (Close ex_env_slow ex_serving ex_serving_world))) \<and>
   stop_sequence (events_since ex_serving_world
       (snd (snd (Close ex_env ex_serving ex_serving_world)))) = [SvcGRPC, SvcHTTP, SvcDebug] \<and>
   open_listeners (snd (snd (Close ex_env ex_serving ex_serving_world))) = {}"
  by (simp add: close_defs Logger_log_def ex_defs ex_env_slow_def events_since_def
      readiness_probe_def http_GET_def accepting_def ServeMux_handler_def pattern_matches_def
      insert_Diff_if)

section \<open>A bind that fails\<close>

text \<open>
  C3. The claim: when a bind fails, \<open>ListenAndServe\<close> returns the bind error and has
  closed, before it returns, every listener that the same attempt had opened. The code
  does not do this on every path. Its deferred \<open>Close\<close> stops the servers in order, and
  \<open>close\<close> returns as soon as the HTTP stop fails. Evaluated where the gRPC bind fails
  while a connection to the plain HTTP server outlasts the deadline: \<open>ListenAndServe\<close>
  returns the bind error, the debug server was not shut down, and its listener
  (descriptor 0) is still open and still held by the server.
\<close>

theorem bind_failure_leaves_debug_listener:
  "fst (ListenAndServe ex_env_bind_fails ex_server ex_world) =
     Returned (Some (Errorf ''failed to start gRPC server''
        (New_error ''listen tcp :9501: bind: address already in use''))) \<and>
   open_listeners (snd (snd (ListenAndServe ex_env_bind_fails ex_server ex_world))) = {0} \<and>
   debugListener (fst (snd (ListenAndServe ex_env_bind_fails ex_server ex_world))) =
     Some \<lparr>fd = 0, addr = ''127.0.0.1:9500''\<rparr> \<and>
   stop_sequence (events_since ex_world
       (snd (snd (ListenAndServe ex_env_bind_fails ex_server ex_world)))) =
     [SvcGRPC, SvcHTTP]"
  by (simp add: listen_defs close_defs Logger_log_def ex_defs ex_env_bind_fails_def
      events_since_def insert_Diff_if)

section \<open>The result of the shutdown sequence\<close>

text \<open>
  C4. The claim: the errors of the HTTP stop and of the debug stop are collected and
  returned together, and an error in one step does not keep the remaining protocol
  servers from being torn down. The code returns at the first error. Evaluated on the
  serving server where a connection to the plain HTTP server outlasts the deadline and
  closing the debug listener gives an error: \<open>close\<close> returns the HTTP error alone and
  never calls the shutdown of the debug server, whose listener (descriptor 0) stays
  open; the debug block, run in the state that the HTTP block leaves, gives the error
  that the result lacks.
\<close>

theorem close_returns_at_first_error:
  "fst (close ex_env_both_fail 5 ex_serving ex_serving_world) =
     Some (Errorf ''failed to close http server'' (New_error ''context deadline exceeded'')) \<and>
   Ev_Shutdown SvcDebug \<notin> set (trace (snd (snd (close ex_env_both_fail 5 ex_serving ex_serving_world)))) \<and>
   open_listeners (snd (snd (close ex_env_both_fail 5 ex_serving ex_serving_world))) = {0} \<and>
   fst (debug_step ex_env_both_fail 5 ex_serving ex_serving_world) =
     Some (Errorf ''failed to close debug server''
             (New_error ''close tcp: use of closed network connection''))"
  by (simp add: debug_step_def http_step_def after_grpc_def close_defs Logger_log_def ex_defs
      ex_env_both_fail_def insert_Diff_if)

section \<open>The deadline of the shutdown sequence\<close>

text \<open>
  C5, as amended. \<open>Close\<close> derives one deadline from the configured timeout and passes it
  to the HTTP stop and to the debug stop: each of the two ends by the deadline, or at once
  if the deadline has passed. The gRPC stop takes no deadline. So \<open>Close\<close> returns by
  the deadline or by the time the gRPC server has drained, whichever is later.
\<close>

theorem Close_deadline:
  "now w \<le> now (snd (snd (Close e s w))) \<and>
   now (snd (snd (Close e s w))) \<le>
     max (now w + closeTimeout (options s)) (now w + drain e SvcGRPC) \<and>
   now (snd (snd (close_http e ctx s w))) \<le> max (now w) ctx \<and>
   now (snd (snd (close_debug e ctx s w))) \<le> max (now w) ctx"
proof -
  have "now w \<le> now (snd (snd (Close e s w))) \<and>
   now (snd (snd (Close e s w))) \<le>
     max (now w + closeTimeout (options s)) (now w + drain e SvcGRPC)"
  proof (cases "closeOnce s")
    case True
    then show ?thesis by (simp add: Close_consumed)
  next
    case False
    then have "snd (snd (Close e s w)) =
        snd (snd (close e (now w + closeTimeout (options s)) s w))"
      by (simp add: Close_def split: prod.splits)
    then show ?thesis
      using now_close [of w e "now w + closeTimeout (options s)" s] by simp
  qed
  then show ?thesis using now_close_http [of w e ctx s] now_close_debug [of w e ctx s] by simp
qed

text \<open>
  The claim as stated fails: with a timeout of 5 ticks and a gRPC server that needs 1000
  ticks to drain, \<open>Close\<close> returns after 1000 ticks.
\<close>

theorem Close_exceeds_timeout:
  "closeTimeout (options ex_serving) = 5 \<and> now ex_serving_world = 0 \<and>
   now (snd (snd (Close ex_env_grpc_slow ex_serving ex_serving_world))) = 1000"
  by (simp add: close_defs Logger_log_def ex_defs ex_env_grpc_slow_def)

section \<open>The readiness probe while the server closes\<close>




section \<open>The listeners that ListenAndServe opens\<close>




section \<open>A signal and an explicit Close\<close>




section \<open>Close on a server that never listened\<close>

text \<open>
  C9, as amended. On a server on which \<open>ListenAndServe\<close> was never started (the
  \<open>listening\<close> channel is nil), the first \<open>Close\<close> returns the error "server is not
  running" and every later \<open>Close\<close> returns \<open>nil\<close>. Either call leaves the world as it
  was (no stop call, no log line, no listener touched) and changes nothing of the server
  but the once-guard.
\<close>

theorem Close_never_started:
  assumes "listening s = None"
  shows "Close e s w =
           ((if closeOnce s then None
             else Some (New_error ''server is not running, invalid close operation'')),
            s\<lparr>closeOnce := True\<rparr>, w)"
proof (cases "closeOnce s")
  case True
  then have "s\<lparr>closeOnce := True\<rparr> = s" by (cases s) simp
  then show ?thesis using True by (simp add: Close_def)
next
  case False
  then show ?thesis using assms by (simp add: Close_def close_def)
qed

theorem Close_never_started_witness:
  "listening ex_server = None \<and>
   Close ex_env ex_server ex_world =
     (Some (New_error ''server is not running, invalid close operation''),
      ex_server_closed, ex_world) \<and>
   listening ex_server_closed = None \<and>
   Close ex_env ex_server_closed ex_world = (None, ex_server_closed, ex_world)"
proof -
  have h: "listening ex_server = None" "listening ex_server_closed = None"
    and g: "\<not> closeOnce ex_server" "closeOnce ex_server_closed"
    and u: "ex_server_closed\<lparr>closeOnce := True\<rparr> = ex_server_closed"
    by (simp_all add: ex_server_def ex_server_closed_def)
  show ?thesis
    using Close_never_started [OF h(1), of ex_env ex_world]
      Close_never_started [OF h(2), of ex_env ex_world] h g u
    by (simp add: ex_server_closed_def)
qed

text \<open>
  The claim as stated fails: called a second time on the server that never listened,
  \<open>Close\<close> returns \<open>nil\<close>, not the error.
\<close>

theorem Close_again_returns_nil:
  "listening ex_server = None \<and>
   fst (Close ex_env ex_server ex_world) =
     Some (New_error ''server is not running, invalid close operation'') \<and>
   fst (Close ex_env (fst (snd (Close ex_env ex_server ex_world)))
          (snd (snd (Close ex_env ex_server ex_world)))) = None"
  by (simp add: Close_def close_def ex_server_def)

section \<open>New when the registry rejects the gRPC metrics\<close>

text \<open>
  C10. If the metrics registry rejects the registration of the gRPC server metrics, \<open>New\<close>
  returns the error of \<open>initializeGRPC\<close> and no \<open>Server\<close>, and it has opened no listener:
  the open listeners of the world are those from before the call and the call made no
  \<open>net.Listen\<close>.
\<close>

theorem New_registration_rejected:
  assumes "fst (Register ''grpc_server_metrics'' (metricsRegistry opts)) = Some err"
  shows "fst (New e name (Inr opts) w) =
           Some (Inl (Errorf ''failed to initialize gRPC server''
                        (Errorf ''failed to register grpc metrics'' err))) \<and>
         open_listeners (snd (New e name (Inr opts) w)) = open_listeners w \<and>
         listen_sequence (events_since w (snd (New e name (Inr opts) w))) = []"
proof -
  define s0 where "s0 =
    \<lparr>Name = name, options = opts, debug = None, debugListener = None,
     http = None, httpMux = None, httpListener = None,
     grpc = None, grpcListener = None, listening = None, closeOnce = False\<rparr>"
  obtain r1 s1 w1 where d: "initializeDebug s0 w = (r1, s1, w1)"
    by (cases "initializeDebug s0 w") auto
  have r1: "r1 = None" using fst_initializeDebug [of s0 w] d by simp
  have reg: "metricsRegistry (options s1) =
     snd (Register ''promhttp_metric_handler_requests_in_flight''
        (snd (Register ''promhttp_metric_handler_requests_total'' (metricsRegistry opts))))"
    using initializeDebug_registry [of s0 w] d by (simp add: s0_def)
  define s1' where "s1' = s1\<lparr>httpMux := Some [],
      http := Some \<lparr>Handler = [], Addr = '''', tracked = [],
      inShutdown = False\<rparr>\<rparr>"
  have "fst (Register ''grpc_server_metrics'' (metricsRegistry (options s1'))) = Some err"
    using Register_rejects_superset [OF Register_rejects_superset [OF assms]]
    by (simp add: s1'_def reg)
  then have g: "initializeGRPC e s1' w1 =
      (Some (Some (Errorf ''failed to register grpc metrics'' err)), s1', w1)"
    by (rule initializeGRPC_rejected)
  have n: "New e name (Inr opts) w =
      (Some (Inl (Errorf ''failed to initialize gRPC server''
                        (Errorf ''failed to register grpc metrics'' err))), w1)"
    using d r1 g by (simp add: New_def s0_def s1'_def)
  show ?thesis using initializeDebug_world [of s0 w] d by (simp add: n)
qed

theorem New_registration_rejected_witness:
  "fst (Register ''grpc_server_metrics'' (metricsRegistry ex_options_registered)) =
     Some (New_error ''duplicate metrics collector registration attempted'') \<and>
   fst (New ex_env ''srv'' (Inr ex_options_registered) ex_world0) =
     Some (Inl (Errorf ''failed to initialize gRPC server''
       (Errorf ''failed to register grpc metrics''
          (New_error ''duplicate metrics collector registration attempted'')))) \<and>
   open_listeners (snd (New ex_env ''srv'' (Inr ex_options_registered) ex_world0)) = {}"
proof -
  have h: "fst (Register ''grpc_server_metrics'' (metricsRegistry ex_options_registered)) =
     Some (New_error ''duplicate metrics collector registration attempted'')"
    by (simp add: Register_def ex_options_registered_def)
  show ?thesis
    using New_registration_rejected [OF h, of ex_env "''srv''" ex_world0] h
    by (simp add: ex_world0_def)
qed

end
